theory Spec2Isabelle
  imports Main "HOL-Library.AList" "HOL-Library.Sublist"
begin

section \<open>Values, errors and the standard library\<close>

text \<open>
  The store of \<^verbatim>\<open>auth/provider_config.go\<close> is a Go \<^verbatim>\<open>map[string]interface{}\<close>.
  The dynamic values the package puts into it are strings, booleans, slices of
  \<^verbatim>\<open>idpCertificate\<close>, the nil interface and nested maps of type
  \<^verbatim>\<open>map[string]interface{}\<close>. A Go map is either nil (\<open>None\<close>: reading it finds
  nothing, writing to it panics) or a table of entries, kept here as an association
  list that is read with \<open>map_of\<close> and written with \<open>AList.update\<close>.

  The store is modelled twice. Reading never depends on which maps are shared: a
  path of \<open>n\<close> segments sees the store unrolled to depth \<open>n\<close>, so \<^verbatim>\<open>Get\<close> alone is
  modelled on the value \<open>val\<close>, in which a nested map is the subtree itself. A Go map
  is a reference, and \<^verbatim>\<open>Set\<close> writes through it: everything that writes, and what
  is built on it, lives on an explicit heap of map objects (section "The store on
  the heap"), where a map value is the address of its object.
\<close>

datatype idpCertificate = idpCertificate (X509Certificate: string)

datatype val =
    VNil
  | VStr string
  | VBool bool
  | VCerts "idpCertificate list"
  | VMap "(string \<times> val) list option"

type_synonym nestedMap = "(string \<times> val) list option"

text \<open>
  A Go \<^verbatim>\<open>error\<close> value is kept by the call that made it: \<open>ErrorsNew msg\<close> is
  \<^verbatim>\<open>errors.New(msg)\<close>, \<open>InvalidSAMLProviderID id\<close> is
  \<^verbatim>\<open>fmt.Errorf("invalid SAML provider id: %q", id)\<close>, \<open>FailedToParse field e\<close> is
  \<^verbatim>\<open>fmt.Errorf("failed to parse <field>: %v", e)\<close>, \<open>FailedToConstructUpdateMask e\<close> is
  \<^verbatim>\<open>fmt.Errorf("failed to construct update mask: %v", e)\<close>, and \<open>External msg\<close> is an
  error made outside this file (by \<^verbatim>\<open>net/url\<close> or by the HTTP transport).
  A run either panics or returns an error: \<open>fault\<close>.
\<close>

datatype error =
    ErrorsNew string
  | InvalidSAMLProviderID string
  | FailedToParse string error
  | FailedToConstructUpdateMask error
  | External string

datatype fault = Panic | Failed error

text \<open>
  \<^verbatim>\<open>strings.Split(s, sep)\<close> for a separator of one byte: the substrings between the
  separators, never an empty list. \<^verbatim>\<open>strings.Join\<close> and \<^verbatim>\<open>strings.HasPrefix\<close>.
\<close>

fun Split :: "string \<Rightarrow> char \<Rightarrow> string list" where
  "Split [] sep = [[]]"
| "Split (c # cs) sep =
     (if c = sep then [] # Split cs sep
      else (case Split cs sep of [] \<Rightarrow> [[c]] | w # ws \<Rightarrow> (c # w) # ws))"

fun Join :: "string list \<Rightarrow> string \<Rightarrow> string" where
  "Join [] sep = []"
| "Join [x] sep = x"
| "Join (x # y # ys) sep = x @ sep @ Join (y # ys) sep"

definition HasPrefix :: "string \<Rightarrow> string \<Rightarrow> bool" where
  "HasPrefix s pre = prefix pre s"


section \<open>Reading the nested key-path store\<close>

definition index :: "nestedMap \<Rightarrow> string \<Rightarrow> val option" where
  "index m k = (case m of None \<Rightarrow> None | Some es \<Rightarrow> map_of es k)"

text \<open>
  The loop of \<^verbatim>\<open>Get\<close> over the segments that are left: \<open>rest = []\<close> is
  \<^verbatim>\<open>idx == len(segments)-1\<close>. The unchecked type assertion
  \<^verbatim>\<open>val.(map[string]interface{})\<close> panics on every value that is not a map.
\<close>

fun get_loop :: "nestedMap \<Rightarrow> string list \<Rightarrow> fault + (val \<times> bool)" where
  "get_loop cur [] = Inr (VNil, False)"
| "get_loop cur (segment # rest) =
     (case index cur segment of
        None \<Rightarrow> Inr (VNil, False)
      | Some v \<Rightarrow>
          if rest = [] then Inr (v, True)
          else (case v of VMap child \<Rightarrow> get_loop child rest | _ \<Rightarrow> Inl Panic))"

definition Get :: "nestedMap \<Rightarrow> string \<Rightarrow> fault + (val \<times> bool)" where
  "Get nm key = get_loop nm (Split key CHR ''.'')"

section \<open>The store on the heap\<close>

text \<open>
  A heap is the list of the map objects made so far; the address of an object is
  its position. A value of map type is a reference: nil or an address.
  \<^verbatim>\<open>make(map[string]interface{})\<close> appends an empty object and returns its address,
  which no value held it before. \<open>lookup\<close> is \<^verbatim>\<open>curr[segment]\<close> read, \<open>store\<close> is
  \<^verbatim>\<open>curr[segment] = value\<close>, which changes the object itself and so every place
  that holds its address.
\<close>

type_synonym ref = "nat option"

datatype iface =
    INil
  | IStr string
  | IBool bool
  | ICerts "idpCertificate list"
  | IMap ref

type_synonym heap = "(string \<times> iface) list list"

definition entries :: "heap \<Rightarrow> ref \<Rightarrow> (string \<times> iface) list" where
  "entries h r = (case r of None \<Rightarrow> [] | Some a \<Rightarrow> if a < length h then h ! a else [])"

definition lookup :: "heap \<Rightarrow> ref \<Rightarrow> string \<Rightarrow> iface option" where
  "lookup h r k = map_of (entries h r) k"

definition store :: "heap \<Rightarrow> ref \<Rightarrow> string \<Rightarrow> iface \<Rightarrow> fault + heap" where
  "store h r k v =
     (case r of
        None \<Rightarrow> Inl Panic
      | Some a \<Rightarrow> Inr (h[a := AList.update k v (entries h r)]))"

definition make_map :: "heap \<Rightarrow> ref \<times> heap" where
  "make_map h = (Some (length h), h @ [[]])"

definition len :: "heap \<Rightarrow> ref \<Rightarrow> nat" where
  "len h r = length (remdups (map fst (entries h r)))"

fun Get_loop :: "heap \<Rightarrow> ref \<Rightarrow> string list \<Rightarrow> fault + (iface \<times> bool)" where
  "Get_loop h cur [] = Inr (INil, False)"
| "Get_loop h cur (segment # rest) =
     (case lookup h cur segment of
        None \<Rightarrow> Inr (INil, False)
      | Some v \<Rightarrow>
          if rest = [] then Inr (v, True)
          else (case v of IMap child \<Rightarrow> Get_loop h child rest | _ \<Rightarrow> Inl Panic))"

definition nestedMap_Get :: "heap \<Rightarrow> ref \<Rightarrow> string \<Rightarrow> fault + (iface \<times> bool)" where
  "nestedMap_Get h nm key = Get_loop h nm (Split key CHR ''.'')"

definition nestedMap_GetString :: "heap \<Rightarrow> ref \<Rightarrow> string \<Rightarrow> fault + (string \<times> bool)" where
  "nestedMap_GetString h nm key =
     (case nestedMap_Get h nm key of
        Inl f \<Rightarrow> Inl f
      | Inr (v, ok) \<Rightarrow>
          if ok then (case v of IStr s \<Rightarrow> Inr (s, True) | _ \<Rightarrow> Inl Panic)
          else Inr ([], False))"

text \<open>
  The loop of \<^verbatim>\<open>Set\<close>, line by line: the last segment is assigned; a segment that is
  present must hold a map, which becomes \<^verbatim>\<open>curr\<close>; for an absent segment a new map
  is made, stored under the segment and becomes \<^verbatim>\<open>curr\<close>. The heap after the call
  is returned.
\<close>

fun Set_loop :: "heap \<Rightarrow> ref \<Rightarrow> string list \<Rightarrow> iface \<Rightarrow> fault + heap" where
  "Set_loop h cur [] v = Inr h"
| "Set_loop h cur (segment # rest) v =
     (if rest = [] then store h cur segment v
      else (case lookup h cur segment of
              Some child \<Rightarrow>
                (case child of IMap cm \<Rightarrow> Set_loop h cm rest v | _ \<Rightarrow> Inl Panic)
            | None \<Rightarrow>
                (case make_map h of
                   (newChild, h1) \<Rightarrow>
                     (case store h1 cur segment (IMap newChild) of
                        Inl f \<Rightarrow> Inl f
                      | Inr h2 \<Rightarrow> Set_loop h2 newChild rest v))))"

definition nestedMap_Set :: "heap \<Rightarrow> ref \<Rightarrow> string \<Rightarrow> iface \<Rightarrow> fault + heap" where
  "nestedMap_Set h nm key v = Set_loop h nm (Split key CHR ''.'') v"

text \<open>
  \<^verbatim>\<open>buildMask\<close> ranges over the entries of the map (Go leaves the order open; the
  model takes the order of the table) and calls itself on every value whose dynamic
  type is \<^verbatim>\<open>map[string]interface{}\<close>. On a map that is nested inside itself the
  recursion never ends: \<open>None\<close> is the call that does not return.
  \<open>buildMask_range\<close> is the \<^verbatim>\<open>for k, v := range data\<close> loop over the entries that are
  left, with the mask it appends to returned at the end.
\<close>

partial_function (option)
  buildMask_range :: "heap \<Rightarrow> (string \<times> iface) list \<Rightarrow> string list option" where
  "buildMask_range h data =
     (case data of
        [] \<Rightarrow> Some []
      | (k, v) # rest \<Rightarrow>
          (case v of
             IMap child \<Rightarrow>
               Option.bind (buildMask_range h (entries h child)) (\<lambda>childMask.
               Option.bind (buildMask_range h rest) (\<lambda>more.
               Some (map (\<lambda>item. k @ ''.'' @ item) childMask @ more)))
           | _ \<Rightarrow> Option.bind (buildMask_range h rest) (\<lambda>more. Some (k # more))))"

definition buildMask :: "heap \<Rightarrow> ref \<Rightarrow> string list option" where
  "buildMask h data = buildMask_range h (entries h data)"

definition UpdateMask :: "heap \<Rightarrow> ref \<Rightarrow> (string list \<times> error option) option" where
  "UpdateMask h nm = map_option (\<lambda>paths. (paths, None)) (buildMask h nm)"

section \<open>Constants and identifier validation\<close>

definition providerConfigEndpoint :: string where
  "providerConfigEndpoint = ''https://identitytoolkit.googleapis.com/v2beta1''"

definition idpEntityIDKey :: string where "idpEntityIDKey = ''idpConfig.idpEntityId''"
definition ssoURLKey :: string where "ssoURLKey = ''idpConfig.ssoUrl''"
definition signRequestKey :: string where "signRequestKey = ''idpConfig.signRequest''"
definition idpCertsKey :: string where "idpCertsKey = ''idpConfig.idpCertificates''"
definition spEntityIDKey :: string where "spEntityIDKey = ''spConfig.spEntityId''"
definition callbackURIKey :: string where "callbackURIKey = ''spConfig.callbackUri''"
definition displayNameKey :: string where "displayNameKey = ''displayName''"
definition enabledKey :: string where "enabledKey = ''enabled''"

definition validateSAMLConfigID :: "string \<Rightarrow> error option" where
  "validateSAMLConfigID i =
     (if \<not> HasPrefix i ''saml.'' then Some (InvalidSAMLProviderID i) else None)"

text \<open>
  \<^verbatim>\<open>segments[len(segments)-1]\<close> panics on an empty slice; \<open>Split\<close> never returns one.
\<close>

definition extractResourceID :: "string \<Rightarrow> fault + string" where
  "extractResourceID name =
     (let segments = Split name CHR ''/''
      in if segments = [] then Inl Panic else Inr (last segments))"

definition and_then :: "fault + 'a \<Rightarrow> ('a \<Rightarrow> fault + 'b) \<Rightarrow> fault + 'b" where
  "and_then r f = (case r of Inl e \<Rightarrow> Inl e | Inr x \<Rightarrow> f x)"

section \<open>The create builder\<close>

text \<open>
  \<^verbatim>\<open>SAMLProviderConfigToCreate\<close> has the fields \<^verbatim>\<open>id\<close> and \<^verbatim>\<open>params\<close>, the latter a
  reference to a map. A setter changes the builder it is called on and returns it,
  which the model writes as a function from the heap and the builder to the heap
  and the builder after the call. \<^verbatim>\<open>url.ParseRequestURI\<close> belongs to the standard
  library and is a parameter: \<open>None\<close> when the string parses, the error otherwise.
\<close>

record SAMLProviderConfigToCreate =
  create_id :: string
  create_params :: ref

definition create_set ::
  "heap \<Rightarrow> SAMLProviderConfigToCreate \<Rightarrow> string \<Rightarrow> iface \<Rightarrow>
     fault + (heap \<times> SAMLProviderConfigToCreate)" where
  "create_set h config key v =
     (case (if create_params config = None
            then (case make_map h of (params, h1) \<Rightarrow> (h1, config\<lparr>create_params := params\<rparr>))
            else (h, config)) of
        (h1, config1) \<Rightarrow>
          (case nestedMap_Set h1 (create_params config1) key v of
             Inl f \<Rightarrow> Inl f
           | Inr h2 \<Rightarrow> Inr (h2, config1)))"

definition create_ID ::
  "string \<Rightarrow> heap \<times> SAMLProviderConfigToCreate \<Rightarrow> fault + (heap \<times> SAMLProviderConfigToCreate)" where
  "create_ID i hc = (case hc of (h, config) \<Rightarrow> Inr (h, config\<lparr>create_id := i\<rparr>))"

definition create_IDPEntityID ::
  "string \<Rightarrow> heap \<times> SAMLProviderConfigToCreate \<Rightarrow> fault + (heap \<times> SAMLProviderConfigToCreate)" where
  "create_IDPEntityID entityID hc =
     (case hc of (h, config) \<Rightarrow> create_set h config idpEntityIDKey (IStr entityID))"

definition create_SSOURL ::
  "string \<Rightarrow> heap \<times> SAMLProviderConfigToCreate \<Rightarrow> fault + (heap \<times> SAMLProviderConfigToCreate)" where
  "create_SSOURL url hc = (case hc of (h, config) \<Rightarrow> create_set h config ssoURLKey (IStr url))"

definition create_RequestSigningEnabled ::
  "bool \<Rightarrow> heap \<times> SAMLProviderConfigToCreate \<Rightarrow> fault + (heap \<times> SAMLProviderConfigToCreate)" where
  "create_RequestSigningEnabled enabled hc =
     (case hc of (h, config) \<Rightarrow> create_set h config signRequestKey (IBool enabled))"

definition create_X509Certificates ::
  "string list \<Rightarrow> heap \<times> SAMLProviderConfigToCreate \<Rightarrow>
     fault + (heap \<times> SAMLProviderConfigToCreate)" where
  "create_X509Certificates certs hc =
     (case hc of (h, config) \<Rightarrow>
        create_set h config idpCertsKey (ICerts (map idpCertificate certs)))"

definition create_RPEntityID ::
  "string \<Rightarrow> heap \<times> SAMLProviderConfigToCreate \<Rightarrow> fault + (heap \<times> SAMLProviderConfigToCreate)" where
  "create_RPEntityID entityID hc =
     (case hc of (h, config) \<Rightarrow> create_set h config spEntityIDKey (IStr entityID))"

definition create_CallbackURL ::
  "string \<Rightarrow> heap \<times> SAMLProviderConfigToCreate \<Rightarrow> fault + (heap \<times> SAMLProviderConfigToCreate)" where
  "create_CallbackURL url hc =
     (case hc of (h, config) \<Rightarrow> create_set h config callbackURIKey (IStr url))"

definition create_DisplayName ::
  "string \<Rightarrow> heap \<times> SAMLProviderConfigToCreate \<Rightarrow> fault + (heap \<times> SAMLProviderConfigToCreate)" where
  "create_DisplayName name hc =
     (case hc of (h, config) \<Rightarrow> create_set h config displayNameKey (IStr name))"

definition create_Enabled ::
  "bool \<Rightarrow> heap \<times> SAMLProviderConfigToCreate \<Rightarrow> fault + (heap \<times> SAMLProviderConfigToCreate)" where
  "create_Enabled enabled hc =
     (case hc of (h, config) \<Rightarrow> create_set h config enabledKey (IBool enabled))"

definition create_buildRequest ::
  "(string \<Rightarrow> error option) \<Rightarrow> heap \<Rightarrow> SAMLProviderConfigToCreate \<Rightarrow> fault + (ref \<times> string)" where
  "create_buildRequest ParseRequestURI h config =
     (case validateSAMLConfigID (create_id config) of
        Some err \<Rightarrow> Inl (Failed err)
      | None \<Rightarrow>
     if len h (create_params config) = 0
     then Inl (Failed (ErrorsNew ''no parameters specified in the create request''))
     else
     and_then (nestedMap_GetString h (create_params config) idpEntityIDKey) (\<lambda>(v, ok).
     if \<not> ok \<or> v = [] then Inl (Failed (ErrorsNew ''IDPEntityID must not be empty''))
     else
     and_then (nestedMap_GetString h (create_params config) ssoURLKey) (\<lambda>(v, ok).
     if \<not> ok \<or> v = [] then Inl (Failed (ErrorsNew ''SSOURL must not be empty''))
     else
     case ParseRequestURI v of
       Some err \<Rightarrow> Inl (Failed (FailedToParse ''SSOURL'' err))
     | None \<Rightarrow>
     and_then (nestedMap_Get h (create_params config) idpCertsKey) (\<lambda>(certs, ok).
     if \<not> ok then Inl (Failed (ErrorsNew ''X509Certificates must not be empty''))
     else
     case certs of
       ICerts cs \<Rightarrow>
         if length cs = 0 then Inl (Failed (ErrorsNew ''X509Certificates must not be empty''))
         else if list_ex (\<lambda>cert. X509Certificate cert = []) cs
         then Inl (Failed (ErrorsNew ''X509Certificates must not contain empty strings''))
         else
         and_then (nestedMap_GetString h (create_params config) spEntityIDKey) (\<lambda>(v, ok).
         if \<not> ok \<or> v = [] then Inl (Failed (ErrorsNew ''RPEntityID must not be empty''))
         else
         and_then (nestedMap_GetString h (create_params config) callbackURIKey) (\<lambda>(v, ok).
         if \<not> ok \<or> v = [] then Inl (Failed (ErrorsNew ''CallbackURL must not be empty''))
         else
         case ParseRequestURI v of
           Some err \<Rightarrow> Inl (Failed (FailedToParse ''CallbackURL'' err))
         | None \<Rightarrow> Inr (create_params config, create_id config)))
     | _ \<Rightarrow> Inl Panic))))"

text \<open>
  A create builder is what a caller outside the package can make: the zero value
  \<^verbatim>\<open>&SAMLProviderConfigToCreate{}\<close> and any chain of setter calls on it.
\<close>

datatype create_call =
    CallID string
  | CallIDPEntityID string
  | CallSSOURL string
  | CallRequestSigningEnabled bool
  | CallX509Certificates "string list"
  | CallRPEntityID string
  | CallCallbackURL string
  | CallDisplayName string
  | CallEnabled bool

definition new_create :: SAMLProviderConfigToCreate where
  "new_create = \<lparr>create_id = [], create_params = None\<rparr>"

fun create_apply ::
  "create_call \<Rightarrow> heap \<times> SAMLProviderConfigToCreate \<Rightarrow>
     fault + (heap \<times> SAMLProviderConfigToCreate)" where
  "create_apply (CallID i) = create_ID i"
| "create_apply (CallIDPEntityID s) = create_IDPEntityID s"
| "create_apply (CallSSOURL s) = create_SSOURL s"
| "create_apply (CallRequestSigningEnabled b) = create_RequestSigningEnabled b"
| "create_apply (CallX509Certificates cs) = create_X509Certificates cs"
| "create_apply (CallRPEntityID s) = create_RPEntityID s"
| "create_apply (CallCallbackURL s) = create_CallbackURL s"
| "create_apply (CallDisplayName s) = create_DisplayName s"
| "create_apply (CallEnabled b) = create_Enabled b"

fun create_chain ::
  "create_call list \<Rightarrow> heap \<times> SAMLProviderConfigToCreate \<Rightarrow>
     fault + (heap \<times> SAMLProviderConfigToCreate)" where
  "create_chain [] hc = Inr hc"
| "create_chain (c # cs) hc = and_then (create_apply c hc) (create_chain cs)"

section \<open>The update builder\<close>

record SAMLProviderConfigToUpdate =
  update_params :: ref

definition update_set ::
  "heap \<Rightarrow> SAMLProviderConfigToUpdate \<Rightarrow> string \<Rightarrow> iface \<Rightarrow>
     fault + (heap \<times> SAMLProviderConfigToUpdate)" where
  "update_set h config key v =
     (case (if update_params config = None
            then (case make_map h of (params, h1) \<Rightarrow> (h1, config\<lparr>update_params := params\<rparr>))
            else (h, config)) of
        (h1, config1) \<Rightarrow>
          (case nestedMap_Set h1 (update_params config1) key v of
             Inl f \<Rightarrow> Inl f
           | Inr h2 \<Rightarrow> Inr (h2, config1)))"

definition update_IDPEntityID ::
  "string \<Rightarrow> heap \<times> SAMLProviderConfigToUpdate \<Rightarrow> fault + (heap \<times> SAMLProviderConfigToUpdate)" where
  "update_IDPEntityID entityID hc =
     (case hc of (h, config) \<Rightarrow> update_set h config idpEntityIDKey (IStr entityID))"

definition update_SSOURL ::
  "string \<Rightarrow> heap \<times> SAMLProviderConfigToUpdate \<Rightarrow> fault + (heap \<times> SAMLProviderConfigToUpdate)" where
  "update_SSOURL url hc = (case hc of (h, config) \<Rightarrow> update_set h config ssoURLKey (IStr url))"

definition update_RequestSigningEnabled ::
  "bool \<Rightarrow> heap \<times> SAMLProviderConfigToUpdate \<Rightarrow> fault + (heap \<times> SAMLProviderConfigToUpdate)" where
  "update_RequestSigningEnabled enabled hc =
     (case hc of (h, config) \<Rightarrow> update_set h config signRequestKey (IBool enabled))"

definition update_X509Certificates ::
  "string list \<Rightarrow> heap \<times> SAMLProviderConfigToUpdate \<Rightarrow>
     fault + (heap \<times> SAMLProviderConfigToUpdate)" where
  "update_X509Certificates certs hc =
     (case hc of (h, config) \<Rightarrow>
        update_set h config idpCertsKey (ICerts (map idpCertificate certs)))"

definition update_RPEntityID ::
  "string \<Rightarrow> heap \<times> SAMLProviderConfigToUpdate \<Rightarrow> fault + (heap \<times> SAMLProviderConfigToUpdate)" where
  "update_RPEntityID entityID hc =
     (case hc of (h, config) \<Rightarrow> update_set h config spEntityIDKey (IStr entityID))"

definition update_CallbackURL ::
  "string \<Rightarrow> heap \<times> SAMLProviderConfigToUpdate \<Rightarrow> fault + (heap \<times> SAMLProviderConfigToUpdate)" where
  "update_CallbackURL url hc =
     (case hc of (h, config) \<Rightarrow> update_set h config callbackURIKey (IStr url))"

text \<open>\<^verbatim>\<open>nameOrNil\<close> stays the nil interface when the name is empty.\<close>

definition update_DisplayName ::
  "string \<Rightarrow> heap \<times> SAMLProviderConfigToUpdate \<Rightarrow> fault + (heap \<times> SAMLProviderConfigToUpdate)" where
  "update_DisplayName name hc =
     (case hc of (h, config) \<Rightarrow>
        (let nameOrNil = (if name \<noteq> [] then IStr name else INil)
         in update_set h config displayNameKey nameOrNil))"

definition update_Enabled ::
  "bool \<Rightarrow> heap \<times> SAMLProviderConfigToUpdate \<Rightarrow> fault + (heap \<times> SAMLProviderConfigToUpdate)" where
  "update_Enabled enabled hc =
     (case hc of (h, config) \<Rightarrow> update_set h config enabledKey (IBool enabled))"

definition update_buildRequest ::
  "(string \<Rightarrow> error option) \<Rightarrow> heap \<Rightarrow> SAMLProviderConfigToUpdate \<Rightarrow> fault + ref" where
  "update_buildRequest ParseRequestURI h config =
     (if len h (update_params config) = 0
      then Inl (Failed (ErrorsNew ''no parameters specified in the update request''))
      else
      and_then (nestedMap_GetString h (update_params config) idpEntityIDKey) (\<lambda>(v, ok).
      if ok \<and> v = [] then Inl (Failed (ErrorsNew ''IDPEntityID must not be empty''))
      else
      and_then (nestedMap_GetString h (update_params config) ssoURLKey) (\<lambda>(v, ok).
      if ok \<and> v = [] then Inl (Failed (ErrorsNew ''SSOURL must not be empty''))
      else
      case (if ok then ParseRequestURI v else None) of
        Some err \<Rightarrow> Inl (Failed (FailedToParse ''SSOURL'' err))
      | None \<Rightarrow>
      and_then (nestedMap_Get h (update_params config) idpCertsKey) (\<lambda>(certs, ok).
      and_then
        (if ok then
           (case certs of
              ICerts cs \<Rightarrow>
                if length cs = 0
                then Inl (Failed (ErrorsNew ''X509Certificates must not be empty''))
                else if list_ex (\<lambda>cert. X509Certificate cert = []) cs
                then Inl (Failed (ErrorsNew ''X509Certificates must not contain empty strings''))
                else Inr ()
            | _ \<Rightarrow> Inl Panic)
         else Inr ())
        (\<lambda>_.
      and_then (nestedMap_GetString h (update_params config) spEntityIDKey) (\<lambda>(v, ok).
      if ok \<and> v = [] then Inl (Failed (ErrorsNew ''RPEntityID must not be empty''))
      else
      and_then (nestedMap_GetString h (update_params config) callbackURIKey) (\<lambda>(v, ok).
      if ok \<and> v = [] then Inl (Failed (ErrorsNew ''CallbackURL must not be empty''))
      else
      case (if ok then ParseRequestURI v else None) of
        Some err \<Rightarrow> Inl (Failed (FailedToParse ''CallbackURL'' err))
      | None \<Rightarrow> Inr (update_params config))))))))"

datatype update_call =
    UpdIDPEntityID string
  | UpdSSOURL string
  | UpdRequestSigningEnabled bool
  | UpdX509Certificates "string list"
  | UpdRPEntityID string
  | UpdCallbackURL string
  | UpdDisplayName string
  | UpdEnabled bool

definition new_update :: SAMLProviderConfigToUpdate where
  "new_update = \<lparr>update_params = None\<rparr>"

fun update_apply ::
  "update_call \<Rightarrow> heap \<times> SAMLProviderConfigToUpdate \<Rightarrow>
     fault + (heap \<times> SAMLProviderConfigToUpdate)" where
  "update_apply (UpdIDPEntityID s) = update_IDPEntityID s"
| "update_apply (UpdSSOURL s) = update_SSOURL s"
| "update_apply (UpdRequestSigningEnabled b) = update_RequestSigningEnabled b"
| "update_apply (UpdX509Certificates cs) = update_X509Certificates cs"
| "update_apply (UpdRPEntityID s) = update_RPEntityID s"
| "update_apply (UpdCallbackURL s) = update_CallbackURL s"
| "update_apply (UpdDisplayName s) = update_DisplayName s"
| "update_apply (UpdEnabled b) = update_Enabled b"

fun update_chain ::
  "update_call list \<Rightarrow> heap \<times> SAMLProviderConfigToUpdate \<Rightarrow>
     fault + (heap \<times> SAMLProviderConfigToUpdate)" where
  "update_chain [] hc = Inr hc"
| "update_chain (c # cs) hc = and_then (update_apply c hc) (update_chain cs)"

section \<open>The transfer object and the read model\<close>

record SAMLProviderConfig =
  ID :: string
  DisplayName :: string
  Enabled :: bool
  IDPEntityID :: string
  SSOURL :: string
  RequestSigningEnabled :: bool
  X509Certificates :: "string list"
  RPEntityID :: string
  CallbackURL :: string

record idpConfigDAO =
  dao_IDPEntityID :: string
  dao_SSOURL :: string
  dao_IDPCertificates :: "idpCertificate list"
  dao_SignRequest :: bool

record spConfigDAO =
  dao_SPEntityID :: string
  dao_CallbackURI :: string

record samlProviderConfigDAO =
  dao_Name :: string
  dao_IDPConfig :: idpConfigDAO
  dao_SPConfig :: spConfigDAO
  dao_DisplayName :: string
  dao_Enabled :: bool

definition toSAMLProviderConfig :: "samlProviderConfigDAO \<Rightarrow> fault + SAMLProviderConfig" where
  "toSAMLProviderConfig dao =
     (let certs = map X509Certificate (dao_IDPCertificates (dao_IDPConfig dao))
      in and_then (extractResourceID (dao_Name dao)) (\<lambda>i.
         Inr \<lparr>ID = i,
              DisplayName = dao_DisplayName dao,
              Enabled = dao_Enabled dao,
              IDPEntityID = dao_IDPEntityID (dao_IDPConfig dao),
              SSOURL = dao_SSOURL (dao_IDPConfig dao),
              RequestSigningEnabled = dao_SignRequest (dao_IDPConfig dao),
              X509Certificates = certs,
              RPEntityID = dao_SPEntityID (dao_SPConfig dao),
              CallbackURL = dao_CallbackURI (dao_SPConfig dao)\<rparr>))"

section \<open>The client\<close>

text \<open>
  The HTTP client of package \<^verbatim>\<open>internal\<close> is a parameter of every operation: the
  function \<open>DoAndUnmarshal\<close> from the request to the error or the decoded transfer
  object. An operation returns its result together with the requests it handed to
  that function, in order: the network calls it made. The body of a request is the
  map the builder returned, held by reference. The update operation does not
  return (\<open>None\<close>) when \<^verbatim>\<open>UpdateMask\<close> does not.
\<close>

datatype HTTPOption = WithQueryParam string string | WithHeader string string

record Request =
  Method :: string
  URL :: string
  Body :: "ref option"
  Opts :: "HTTPOption list"

record providerConfigClient =
  endpoint :: string
  projectID :: string

definition makeRequest ::
  "providerConfigClient \<Rightarrow> (Request \<Rightarrow> error + samlProviderConfigDAO) \<Rightarrow> Request \<Rightarrow>
     (error + samlProviderConfigDAO) \<times> Request list" where
  "makeRequest c DoAndUnmarshal req =
     (if projectID c = [] then (Inl (ErrorsNew ''project id not available''), [])
      else (DoAndUnmarshal (req\<lparr>URL := endpoint c @ ''/projects/'' @ projectID c @ URL req\<rparr>),
            [req\<lparr>URL := endpoint c @ ''/projects/'' @ projectID c @ URL req\<rparr>]))"

definition decoded ::
  "(error + samlProviderConfigDAO) \<times> Request list \<Rightarrow> (fault + SAMLProviderConfig) \<times> Request list" where
  "decoded r =
     (case r of
        (Inl err, sent) \<Rightarrow> (Inl (Failed err), sent)
      | (Inr result, sent) \<Rightarrow> (toSAMLProviderConfig result, sent))"

definition GetSAMLProviderConfig ::
  "providerConfigClient \<Rightarrow> (Request \<Rightarrow> error + samlProviderConfigDAO) \<Rightarrow> string \<Rightarrow>
     (fault + SAMLProviderConfig) \<times> Request list" where
  "GetSAMLProviderConfig c DoAndUnmarshal i =
     (case validateSAMLConfigID i of
        Some err \<Rightarrow> (Inl (Failed err), [])
      | None \<Rightarrow>
          decoded (makeRequest c DoAndUnmarshal
            \<lparr>Method = ''GET'', URL = ''/inboundSamlConfigs/'' @ i, Body = None, Opts = []\<rparr>))"

definition CreateSAMLProviderConfig ::
  "providerConfigClient \<Rightarrow> (Request \<Rightarrow> error + samlProviderConfigDAO) \<Rightarrow>
     (string \<Rightarrow> error option) \<Rightarrow> heap \<Rightarrow> SAMLProviderConfigToCreate option \<Rightarrow>
     (fault + SAMLProviderConfig) \<times> Request list" where
  "CreateSAMLProviderConfig c DoAndUnmarshal ParseRequestURI h config =
     (case config of
        None \<Rightarrow> (Inl (Failed (ErrorsNew ''config must not be nil'')), [])
      | Some config \<Rightarrow>
          (case create_buildRequest ParseRequestURI h config of
             Inl f \<Rightarrow> (Inl f, [])
           | Inr (body, i) \<Rightarrow>
               decoded (makeRequest c DoAndUnmarshal
                 \<lparr>Method = ''POST'', URL = ''/inboundSamlConfigs'', Body = Some body,
                  Opts = [WithQueryParam ''inboundSamlConfigId'' i]\<rparr>)))"

definition UpdateSAMLProviderConfig ::
  "providerConfigClient \<Rightarrow> (Request \<Rightarrow> error + samlProviderConfigDAO) \<Rightarrow>
     (string \<Rightarrow> error option) \<Rightarrow> heap \<Rightarrow> string \<Rightarrow> SAMLProviderConfigToUpdate option \<Rightarrow>
     ((fault + SAMLProviderConfig) \<times> Request list) option" where
  "UpdateSAMLProviderConfig c DoAndUnmarshal ParseRequestURI h i config =
     (case validateSAMLConfigID i of
        Some err \<Rightarrow> Some (Inl (Failed err), [])
      | None \<Rightarrow>
     case config of
       None \<Rightarrow> Some (Inl (Failed (ErrorsNew ''config must not be nil'')), [])
     | Some config \<Rightarrow>
         (case update_buildRequest ParseRequestURI h config of
            Inl f \<Rightarrow> Some (Inl f, [])
          | Inr body \<Rightarrow>
              (case UpdateMask h body of
                 None \<Rightarrow> None
               | Some (paths, Some err) \<Rightarrow> Some (Inl (Failed (FailedToConstructUpdateMask err)), [])
               | Some (paths, None) \<Rightarrow>
                   Some (decoded (makeRequest c DoAndUnmarshal
                     \<lparr>Method = ''PATCH'', URL = ''/inboundSamlConfigs/'' @ i, Body = Some body,
                      Opts = [WithQueryParam ''updateMask'' (Join paths '','')]\<rparr>)))))"

definition DeleteSAMLProviderConfig ::
  "providerConfigClient \<Rightarrow> (Request \<Rightarrow> error + samlProviderConfigDAO) \<Rightarrow> string \<Rightarrow>
     error option \<times> Request list" where
  "DeleteSAMLProviderConfig c DoAndUnmarshal i =
     (case validateSAMLConfigID i of
        Some err \<Rightarrow> (Some err, [])
      | None \<Rightarrow>
          (case makeRequest c DoAndUnmarshal
                  \<lparr>Method = ''DELETE'', URL = ''/inboundSamlConfigs/'' @ i, Body = None,
                   Opts = []\<rparr> of
             (Inl err, sent) \<Rightarrow> (Some err, sent)
           | (Inr result, sent) \<Rightarrow> (None, sent)))"

section \<open>What the claims speak of\<close>

text \<open>
  The value bound to a path of segments: the walk from the root through nested
  maps, \<open>None\<close> as soon as a segment is absent or the walk would have to leave a
  value that is not a map. The empty path is bound to the store itself.
\<close>

definition walk :: "nestedMap \<Rightarrow> string list \<Rightarrow> val option" where
  "walk m ps =
     fold (\<lambda>s acc. case acc of Some (VMap c) \<Rightarrow> index c s | _ \<Rightarrow> None) ps (Some (VMap m))"

definition is_map :: "val \<Rightarrow> bool" where
  "is_map v = (case v of VMap c \<Rightarrow> True | _ \<Rightarrow> False)"




text \<open>
  What a caller has supplied to a builder: for every setter the argument of its
  last call, \<open>None\<close> when it was never called.
\<close>

record fields =
  f_id :: string
  f_idpEntityID :: "string option"
  f_ssoURL :: "string option"
  f_signRequest :: "bool option"
  f_certs :: "string list option"
  f_rpEntityID :: "string option"
  f_callbackURL :: "string option"
  f_displayName :: "string option"
  f_enabled :: "bool option"

definition no_fields :: fields where
  "no_fields =
     \<lparr>f_id = [], f_idpEntityID = None, f_ssoURL = None, f_signRequest = None, f_certs = None,
      f_rpEntityID = None, f_callbackURL = None, f_displayName = None, f_enabled = None\<rparr>"

fun create_note :: "create_call \<Rightarrow> fields \<Rightarrow> fields" where
  "create_note (CallID i) f = f\<lparr>f_id := i\<rparr>"
| "create_note (CallIDPEntityID s) f = f\<lparr>f_idpEntityID := Some s\<rparr>"
| "create_note (CallSSOURL s) f = f\<lparr>f_ssoURL := Some s\<rparr>"
| "create_note (CallRequestSigningEnabled b) f = f\<lparr>f_signRequest := Some b\<rparr>"
| "create_note (CallX509Certificates cs) f = f\<lparr>f_certs := Some cs\<rparr>"
| "create_note (CallRPEntityID s) f = f\<lparr>f_rpEntityID := Some s\<rparr>"
| "create_note (CallCallbackURL s) f = f\<lparr>f_callbackURL := Some s\<rparr>"
| "create_note (CallDisplayName s) f = f\<lparr>f_displayName := Some s\<rparr>"
| "create_note (CallEnabled b) f = f\<lparr>f_enabled := Some b\<rparr>"

definition create_supplied :: "create_call list \<Rightarrow> fields" where
  "create_supplied cs = fold create_note cs no_fields"

fun update_note :: "update_call \<Rightarrow> fields \<Rightarrow> fields" where
  "update_note (UpdIDPEntityID s) f = f\<lparr>f_idpEntityID := Some s\<rparr>"
| "update_note (UpdSSOURL s) f = f\<lparr>f_ssoURL := Some s\<rparr>"
| "update_note (UpdRequestSigningEnabled b) f = f\<lparr>f_signRequest := Some b\<rparr>"
| "update_note (UpdX509Certificates cs) f = f\<lparr>f_certs := Some cs\<rparr>"
| "update_note (UpdRPEntityID s) f = f\<lparr>f_rpEntityID := Some s\<rparr>"
| "update_note (UpdCallbackURL s) f = f\<lparr>f_callbackURL := Some s\<rparr>"
| "update_note (UpdDisplayName s) f = f\<lparr>f_displayName := Some s\<rparr>"
| "update_note (UpdEnabled b) f = f\<lparr>f_enabled := Some b\<rparr>"

definition update_supplied :: "update_call list \<Rightarrow> fields" where
  "update_supplied cs = fold update_note cs no_fields"

definition untouched :: "fields \<Rightarrow> bool" where
  "untouched f \<longleftrightarrow>
     f_idpEntityID f = None \<and> f_ssoURL f = None \<and> f_signRequest f = None \<and> f_certs f = None \<and>
     f_rpEntityID f = None \<and> f_callbackURL f = None \<and> f_displayName f = None \<and>
     f_enabled f = None"

text \<open>
  The checks of the specification, one function each, and the rule that the first
  failure in the fixed order wins.
\<close>

fun first_failure :: "error option list \<Rightarrow> error option" where
  "first_failure [] = None"
| "first_failure (None # cs) = first_failure cs"
| "first_failure (Some e # cs) = Some e"

definition check_id :: "string \<Rightarrow> error option" where
  "check_id i = (if prefix ''saml.'' i then None else Some (InvalidSAMLProviderID i))"

definition check_touched :: "string \<Rightarrow> fields \<Rightarrow> error option" where
  "check_touched request f =
     (if untouched f then Some (ErrorsNew (''no parameters specified in the '' @ request @ '' request''))
      else None)"

fun check_text :: "string \<Rightarrow> string option \<Rightarrow> error option" where
  "check_text field None = Some (ErrorsNew (field @ '' must not be empty''))"
| "check_text field (Some s) =
     (if s = [] then Some (ErrorsNew (field @ '' must not be empty'')) else None)"

fun check_url :: "(string \<Rightarrow> error option) \<Rightarrow> string \<Rightarrow> string option \<Rightarrow> error option" where
  "check_url ParseRequestURI field None = Some (ErrorsNew (field @ '' must not be empty''))"
| "check_url ParseRequestURI field (Some s) =
     (if s = [] then Some (ErrorsNew (field @ '' must not be empty''))
      else map_option (FailedToParse field) (ParseRequestURI s))"

fun check_certs :: "string list option \<Rightarrow> error option" where
  "check_certs None = Some (ErrorsNew ''X509Certificates must not be empty'')"
| "check_certs (Some cs) =
     (if cs = [] then Some (ErrorsNew ''X509Certificates must not be empty'')
      else if [] \<in> set cs then Some (ErrorsNew ''X509Certificates must not contain empty strings'')
      else None)"

definition when_present :: "('a option \<Rightarrow> error option) \<Rightarrow> 'a option \<Rightarrow> error option" where
  "when_present check x = (case x of None \<Rightarrow> None | Some y \<Rightarrow> check x)"

definition create_spec :: "(string \<Rightarrow> error option) \<Rightarrow> fields \<Rightarrow> error option" where
  "create_spec ParseRequestURI f =
     first_failure
       [check_id (f_id f),
        check_touched ''create'' f,
        check_text ''IDPEntityID'' (f_idpEntityID f),
        check_url ParseRequestURI ''SSOURL'' (f_ssoURL f),
        check_certs (f_certs f),
        check_text ''RPEntityID'' (f_rpEntityID f),
        check_url ParseRequestURI ''CallbackURL'' (f_callbackURL f)]"

definition update_spec :: "(string \<Rightarrow> error option) \<Rightarrow> fields \<Rightarrow> error option" where
  "update_spec ParseRequestURI f =
     first_failure
       [check_touched ''update'' f,
        when_present (check_text ''IDPEntityID'') (f_idpEntityID f),
        when_present (check_url ParseRequestURI ''SSOURL'') (f_ssoURL f),
        when_present check_certs (f_certs f),
        when_present (check_text ''RPEntityID'') (f_rpEntityID f),
        when_present (check_url ParseRequestURI ''CallbackURL'') (f_callbackURL f)]"

text \<open>
  The field path a setter call stores under; the calls of a chain without those
  that set a given field.
\<close>

fun create_key :: "create_call \<Rightarrow> string option" where
  "create_key (CallID i) = None"
| "create_key (CallIDPEntityID s) = Some idpEntityIDKey"
| "create_key (CallSSOURL s) = Some ssoURLKey"
| "create_key (CallRequestSigningEnabled b) = Some signRequestKey"
| "create_key (CallX509Certificates cs) = Some idpCertsKey"
| "create_key (CallRPEntityID s) = Some spEntityIDKey"
| "create_key (CallCallbackURL s) = Some callbackURIKey"
| "create_key (CallDisplayName s) = Some displayNameKey"
| "create_key (CallEnabled b) = Some enabledKey"

definition omitting :: "string \<Rightarrow> create_call list \<Rightarrow> create_call list" where
  "omitting key cs = filter (\<lambda>c. create_key c \<noteq> Some key) cs"

text \<open>
  What the store of a builder holds for the supplied fields: under every field
  path the value the setter stores, found, or nothing, not found.
\<close>

definition found :: "iface option \<Rightarrow> iface \<times> bool" where
  "found x = (case x of None \<Rightarrow> (INil, False) | Some v \<Rightarrow> (v, True))"

definition create_values :: "fields \<Rightarrow> (string \<times> iface option) list" where
  "create_values f =
     [(idpEntityIDKey, map_option IStr (f_idpEntityID f)),
      (ssoURLKey, map_option IStr (f_ssoURL f)),
      (signRequestKey, map_option IBool (f_signRequest f)),
      (idpCertsKey, map_option (\<lambda>cs. ICerts (map idpCertificate cs)) (f_certs f)),
      (spEntityIDKey, map_option IStr (f_rpEntityID f)),
      (callbackURIKey, map_option IStr (f_callbackURL f)),
      (displayNameKey, map_option IStr (f_displayName f)),
      (enabledKey, map_option IBool (f_enabled f))]"

definition update_values :: "fields \<Rightarrow> (string \<times> iface option) list" where
  "update_values f =
     [(idpEntityIDKey, map_option IStr (f_idpEntityID f)),
      (ssoURLKey, map_option IStr (f_ssoURL f)),
      (signRequestKey, map_option IBool (f_signRequest f)),
      (idpCertsKey, map_option (\<lambda>cs. ICerts (map idpCertificate cs)) (f_certs f)),
      (spEntityIDKey, map_option IStr (f_rpEntityID f)),
      (callbackURIKey, map_option IStr (f_callbackURL f)),
      (displayNameKey, map_option (\<lambda>n. if n \<noteq> [] then IStr n else INil) (f_displayName f)),
      (enabledKey, map_option IBool (f_enabled f))]"

definition holds :: "heap \<Rightarrow> ref \<Rightarrow> (string \<times> iface option) list \<Rightarrow> bool" where
  "holds h nm kvs = list_all (\<lambda>(k, x). nestedMap_Get h nm k = Inr (found x)) kvs"

text \<open>
  The shape of the store of a builder, kept by every setter: the map of the builder
  holds, under \<^verbatim>\<open>idpConfig\<close> and \<^verbatim>\<open>spConfig\<close>, two different maps of its own that
  hold no maps, and no map under any other key.
\<close>

definition leaf :: "iface \<Rightarrow> bool" where
  "leaf v = (case v of IMap r \<Rightarrow> False | _ \<Rightarrow> True)"

definition is_group :: "string \<Rightarrow> bool" where
  "is_group k \<longleftrightarrow> k = ''idpConfig'' \<or> k = ''spConfig''"

definition shaped :: "heap \<Rightarrow> nat \<Rightarrow> bool" where
  "shaped h p \<longleftrightarrow>
     p < length h \<and>
     (\<forall>k v. (k, v) \<in> set (h ! p) \<longrightarrow>
        (if is_group k
         then \<exists>c. v = IMap (Some c) \<and> c < length h \<and> c \<noteq> p \<and>
                  (\<forall>q w. (q, w) \<in> set (h ! c) \<longrightarrow> leaf w)
         else leaf v)) \<and>
     (\<forall>k k' c. (k, IMap (Some c)) \<in> set (h ! p) \<and> (k', IMap (Some c)) \<in> set (h ! p) \<longrightarrow> k = k')"

definition put :: "string \<Rightarrow> iface \<Rightarrow> (string \<times> iface option) list \<Rightarrow> (string \<times> iface option) list" where
  "put key v kvs = map (\<lambda>(k, x). if k = key then (k, Some v) else (k, x)) kvs"

definition field_key :: "string \<Rightarrow> bool" where
  "field_key k \<longleftrightarrow>
     (case Split k CHR ''.'' of
        [d] \<Rightarrow> \<not> is_group d
      | [g, q] \<Rightarrow> is_group g
      | _ \<Rightarrow> False)"

definition create_inv :: "heap \<times> SAMLProviderConfigToCreate \<Rightarrow> fields \<Rightarrow> bool" where
  "create_inv hc f \<longleftrightarrow>
     (case hc of (h, config) \<Rightarrow>
        create_id config = f_id f \<and>
        (case create_params config of
           None \<Rightarrow> untouched f
         | Some p \<Rightarrow> \<not> untouched f \<and> shaped h p \<and> holds h (Some p) (create_values f)))"

definition update_inv :: "heap \<times> SAMLProviderConfigToUpdate \<Rightarrow> fields \<Rightarrow> bool" where
  "update_inv hc f \<longleftrightarrow>
     (case hc of (h, config) \<Rightarrow>
        (case update_params config of
           None \<Rightarrow> untouched f
         | Some p \<Rightarrow> \<not> untouched f \<and> shaped h p \<and> holds h (Some p) (update_values f)))"

section \<open>Lemmas on reading\<close>

lemma Split_not_Nil: "Split s c \<noteq> []"
  by (induction s) (auto split: list.splits)

lemma Split_no_sep: "c \<notin> set s \<Longrightarrow> Split s c = [s]"
  by (induction s) auto

lemma index_None [simp]: "index None k = None"
  by (simp add: index_def)

lemma index_Some [simp]: "index (Some es) k = map_of es k"
  by (simp add: index_def)

lemma index_found_not_nil: "index m k = Some v \<Longrightarrow> m \<noteq> None"
  by (cases m) simp_all

lemma walk_Nil: "walk m [] = Some (VMap m)"
  by (simp add: walk_def)

lemma fold_step_None:
  "fold (\<lambda>s acc. case acc of Some (VMap c) \<Rightarrow> index c s | _ \<Rightarrow> None) ps None = None"
  by (induction ps) auto

lemma walk_Cons:
  "walk m (s # ps) =
     (case index m s of
        None \<Rightarrow> None
      | Some v \<Rightarrow> if ps = [] then Some v else (case v of VMap c \<Rightarrow> walk c ps | _ \<Rightarrow> None))"
proof (cases ps)
  case Nil
  then show ?thesis by (simp add: walk_def split: option.splits)
next
  case (Cons p ps')
  then show ?thesis
    by (simp add: walk_def fold_step_None split: option.splits val.splits)
qed

lemma walk_Cons_map: "index m s = Some (VMap cm) \<Longrightarrow> walk m (s # ps) = walk cm ps"
  by (cases ps) (simp_all add: walk_Cons walk_Nil)

lemma walk_Cons_absent: "index m s = None \<Longrightarrow> walk m (s # ps) = None"
  by (simp add: walk_Cons)

lemma walk_Cons_leaf: "index m s = Some v \<Longrightarrow> \<not> is_map v \<Longrightarrow> ps \<noteq> [] \<Longrightarrow> walk m (s # ps) = None"
  by (cases v) (simp_all add: walk_Cons is_map_def)

lemma walk_snoc:
  "walk m (ps @ [s]) = (case walk m ps of Some (VMap c) \<Rightarrow> index c s | _ \<Rightarrow> None)"
  by (simp add: walk_def)

lemma get_loop_walk:
  "walk m ps = Some (VMap c) \<Longrightarrow> rest \<noteq> [] \<Longrightarrow> get_loop m (ps @ rest) = get_loop c rest"
proof (induction ps arbitrary: m)
  case Nil
  then show ?case by (simp add: walk_Nil)
next
  case (Cons s ps)
  show ?case
  proof (cases "index m s")
    case None
    with Cons.prems show ?thesis by (simp add: walk_Cons_absent)
  next
    case (Some v)
    show ?thesis
    proof (cases v)
      case (VMap cm)
      with Some Cons.prems have "walk cm ps = Some (VMap c)" by (simp add: walk_Cons_map)
      from Cons.IH[OF this Cons.prems(2)] Some VMap Cons.prems(2) show ?thesis by simp
    qed (use Some Cons.prems in \<open>cases ps; simp add: walk_Cons\<close>)+
  qed
qed

lemma get_loop_Inl:
  "get_loop m segs = Inl f \<Longrightarrow>
     f = Panic \<and> (\<exists>ps s rest c v. segs = ps @ s # rest \<and> rest \<noteq> [] \<and> walk m ps = Some (VMap c) \<and>
        index c s = Some v \<and> \<not> is_map v)"
proof (induction segs arbitrary: m)
  case Nil
  then show ?case by simp
next
  case (Cons segment rest)
  show ?case
  proof (cases "index m segment")
    case None
    with Cons.prems show ?thesis by simp
  next
    case (Some v)
    show ?thesis
    proof (cases "rest = []")
      case True
      with Cons.prems Some show ?thesis by simp
    next
      case False
      show ?thesis
      proof (cases "is_map v")
        case True
        then obtain child where VMap: "v = VMap child" by (cases v) (simp_all add: is_map_def)
        with Cons.prems Some False have "get_loop child rest = Inl f" by simp
        from Cons.IH[OF this] obtain ps s rest' c v' where
          *: "f = Panic" "rest = ps @ s # rest'" "rest' \<noteq> []" "walk child ps = Some (VMap c)"
             "index c s = Some v'" "\<not> is_map v'"
          by blast
        have "walk m (segment # ps) = Some (VMap c)"
          using * Some VMap by (simp add: walk_Cons_map)
        moreover have "segment # rest = (segment # ps) @ s # rest'" using * by simp
        ultimately show ?thesis using * by blast
      next
        case nomap: False
        with Cons.prems Some False have "f = Panic" by (cases v) (simp_all add: is_map_def)
        moreover have "segment # rest = [] @ segment # rest" by simp
        moreover have "walk m [] = Some (VMap m)" by (rule walk_Nil)
        ultimately show ?thesis using False Some nomap by blast
      qed
    qed
  qed
qed


section \<open>Get\<close>

text \<open>
  C1 (as amended): \<^verbatim>\<open>Get\<close> returns "not found" when an intermediate segment is absent
  from the map that the segments before it lead to; when an intermediate segment is
  bound to a value that is not a nested map, the unchecked type assertion panics;
  and \<^verbatim>\<open>Get\<close> panics in no other case.
\<close>

theorem Get_not_found_or_panic:
  "(Split key CHR ''.'' = ps @ s # rest \<and> rest \<noteq> [] \<and> walk nm ps = Some (VMap c) \<and>
      index c s = None \<longrightarrow> Get nm key = Inr (VNil, False)) \<and>
   (Split key CHR ''.'' = ps @ s # rest \<and> rest \<noteq> [] \<and> walk nm ps = Some (VMap c) \<and>
      index c s = Some v \<and> \<not> is_map v \<longrightarrow> Get nm key = Inl Panic) \<and>
   (Get nm key = Inl f \<longrightarrow>
      f = Panic \<and>
      (\<exists>ps s rest c v. Split key CHR ''.'' = ps @ s # rest \<and> rest \<noteq> [] \<and>
          walk nm ps = Some (VMap c) \<and> index c s = Some v \<and> \<not> is_map v))"
proof (intro conjI impI)
  assume a: "Split key CHR ''.'' = ps @ s # rest \<and> rest \<noteq> [] \<and> walk nm ps = Some (VMap c) \<and>
      index c s = None"
  then have "get_loop nm (ps @ s # rest) = get_loop c (s # rest)"
    by (intro get_loop_walk) simp_all
  with a show "Get nm key = Inr (VNil, False)" by (simp add: Get_def)
next
  assume a: "Split key CHR ''.'' = ps @ s # rest \<and> rest \<noteq> [] \<and> walk nm ps = Some (VMap c) \<and>
      index c s = Some v \<and> \<not> is_map v"
  then have "get_loop nm (ps @ s # rest) = get_loop c (s # rest)"
    by (intro get_loop_walk) simp_all
  with a show "Get nm key = Inl Panic" by (cases v) (simp_all add: Get_def is_map_def)
next
  assume "Get nm key = Inl f"
  then have "get_loop nm (Split key CHR ''.'') = Inl f" by (simp add: Get_def)
  from get_loop_Inl[OF this] show "f = Panic" by simp
next
  assume "Get nm key = Inl f"
  then have "get_loop nm (Split key CHR ''.'') = Inl f" by (simp add: Get_def)
  from get_loop_Inl[OF this]
  show "\<exists>ps s rest c v. Split key CHR ''.'' = ps @ s # rest \<and> rest \<noteq> [] \<and>
          walk nm ps = Some (VMap c) \<and> index c s = Some v \<and> \<not> is_map v" by simp
qed

text \<open>The theorem at an absent intermediate segment and at a string in the way.\<close>

theorem Get_not_found_or_panic_witness:
  "Get (Some [(''a'', VMap (Some [(''b'', VStr ''x'')]))]) ''a.c.d'' = Inr (VNil, False) \<and>
   Get (Some [(''a'', VStr ''x'')]) ''a.b'' = Inl Panic"
  using Get_not_found_or_panic[where key = "''a.c.d''" and ps = "[''a'']" and s = "''c''"
      and rest = "[''d'']" and nm = "Some [(''a'', VMap (Some [(''b'', VStr ''x'')]))]"
      and c = "Some [(''b'', VStr ''x'')]"]
    Get_not_found_or_panic[where key = "''a.b''" and ps = "[]" and s = "''a''"
      and rest = "[''b'']" and nm = "Some [(''a'', VStr ''x'')]"
      and c = "Some [(''a'', VStr ''x'')]" and v = "VStr ''x''"]
  by (simp add: walk_def is_map_def)

text \<open>
  C1 as stated fails: on the store \<^verbatim>\<open>{"a": "x"}\<close> the path \<^verbatim>\<open>a.b\<close> has the intermediate
  segment \<^verbatim>\<open>a\<close> bound to a string, and \<^verbatim>\<open>Get\<close> panics instead of returning "not found".
\<close>

theorem Get_panics_on_leaf_in_the_way:
  "Get (Some [(''a'', VStr ''x'')]) ''a.b'' = Inl Panic \<and>
   Get (Some [(''a'', VStr ''x'')]) ''a.b'' \<noteq> Inr (VNil, False)"
  by (simp add: Get_def)


section \<open>Lemmas on the heap\<close>

lemma entries_None [simp]: "entries h None = []"
  by (simp add: entries_def)

lemma lookup_None [simp]: "lookup h None k = None"
  by (simp add: lookup_def)


lemma store_None [simp]: "store h None k v = Inl Panic"
  by (simp add: store_def)












lemma lookup_fresh: "lookup (h @ [[]]) (Some (length h)) k = None"
  by (simp add: lookup_def entries_def)






section \<open>Set\<close>




section \<open>The mapper\<close>

lemma Split_shape:
  "(Split s c = [s] \<and> c \<notin> set s) \<or>
   (\<exists>pre. s = pre @ c # last (Split s c) \<and> c \<notin> set (last (Split s c)) \<and> 2 \<le> length (Split s c))"
proof (induction s)
  case Nil
  then show ?case by simp
next
  case (Cons x xs)
  obtain w ws where segs: "Split xs c = w # ws"
    using Split_not_Nil[of xs c] by (cases "Split xs c") auto
  from Cons.IH show ?case
  proof
    assume a: "Split xs c = [xs] \<and> c \<notin> set xs"
    show ?thesis
    proof (cases "x = c")
      case True
      with a have "x # xs = [] @ c # last (Split (x # xs) c) \<and> c \<notin> set (last (Split (x # xs) c)) \<and>
        2 \<le> length (Split (x # xs) c)" by simp
      then show ?thesis by blast
    next
      case False
      with a show ?thesis by simp
    qed
  next
    assume "\<exists>pre. xs = pre @ c # last (Split xs c) \<and> c \<notin> set (last (Split xs c)) \<and>
      2 \<le> length (Split xs c)"
    then obtain pre where a: "xs = pre @ c # last (Split xs c)" "c \<notin> set (last (Split xs c))"
      "2 \<le> length (Split xs c)" by blast
    from a(3) segs have ws: "ws \<noteq> []" by (cases ws) simp_all
    have l: "last (Split (x # xs) c) = last (Split xs c)"
      using segs ws by simp
    have n: "2 \<le> length (Split (x # xs) c)" using segs a(3) by simp
    have "x # xs = (x # pre) @ c # last (Split xs c)" using a(1) by simp
    with l a(2) n show ?thesis by metis
  qed
qed

lemma extractResourceID_last: "extractResourceID name = Inr (last (Split name CHR ''/''))"
  by (simp add: extractResourceID_def Split_not_Nil)

text \<open>
  C8: mapping a transfer object to the read model never fails; it copies display
  name, enabled flag, IDP entity ID, SSO URL, request-signing flag, RP entity ID and
  callback URL unchanged, turns the certificate objects into their strings in the
  same order, and takes as identifier the part of the resource name after its last
  \<^verbatim>\<open>/\<close> (the whole name when it has none): for the resource name
  \<^verbatim>\<open>projects/p1/inboundSamlConfigs/saml.provider1\<close> the identifier \<^verbatim>\<open>saml.provider1\<close>.
\<close>

theorem toSAMLProviderConfig_copies:
  "\<exists>c. toSAMLProviderConfig dao = Inr c \<and>
        DisplayName c = dao_DisplayName dao \<and>
        Enabled c = dao_Enabled dao \<and>
        IDPEntityID c = dao_IDPEntityID (dao_IDPConfig dao) \<and>
        SSOURL c = dao_SSOURL (dao_IDPConfig dao) \<and>
        RequestSigningEnabled c = dao_SignRequest (dao_IDPConfig dao) \<and>
        RPEntityID c = dao_SPEntityID (dao_SPConfig dao) \<and>
        CallbackURL c = dao_CallbackURI (dao_SPConfig dao) \<and>
        length (X509Certificates c) = length (dao_IDPCertificates (dao_IDPConfig dao)) \<and>
        (\<forall>n < length (X509Certificates c).
           X509Certificates c ! n = X509Certificate (dao_IDPCertificates (dao_IDPConfig dao) ! n)) \<and>
        CHR ''/'' \<notin> set (ID c) \<and>
        (dao_Name dao = ID c \<or> (\<exists>pre. dao_Name dao = pre @ ''/'' @ ID c)) \<and>
        (dao_Name dao = ''projects/p1/inboundSamlConfigs/saml.provider1'' \<longrightarrow>
           ID c = ''saml.provider1'')"
proof -
  let ?i = "last (Split (dao_Name dao) CHR ''/'')"
  let ?c = "\<lparr>ID = ?i,
      DisplayName = dao_DisplayName dao,
      Enabled = dao_Enabled dao,
      IDPEntityID = dao_IDPEntityID (dao_IDPConfig dao),
      SSOURL = dao_SSOURL (dao_IDPConfig dao),
      RequestSigningEnabled = dao_SignRequest (dao_IDPConfig dao),
      X509Certificates = map X509Certificate (dao_IDPCertificates (dao_IDPConfig dao)),
      RPEntityID = dao_SPEntityID (dao_SPConfig dao),
      CallbackURL = dao_CallbackURI (dao_SPConfig dao)\<rparr>"
  have r: "toSAMLProviderConfig dao = Inr ?c"
    by (simp add: toSAMLProviderConfig_def extractResourceID_last and_then_def)
  have s: "CHR ''/'' \<notin> set ?i \<and> (dao_Name dao = ?i \<or> (\<exists>pre. dao_Name dao = pre @ ''/'' @ ?i))"
    using Split_shape[of "dao_Name dao" "CHR ''/''"] by auto
  have e: "dao_Name dao = ''projects/p1/inboundSamlConfigs/saml.provider1'' \<longrightarrow> ?i = ''saml.provider1''"
    by simp
  show ?thesis
    apply (rule exI[of _ ?c])
    apply (intro conjI)
    apply (rule r)
    apply simp_all
    using s e apply auto
    done
qed

text \<open>The theorem at a transfer object with two certificates.\<close>

theorem toSAMLProviderConfig_copies_witness:
  "\<exists>c. toSAMLProviderConfig
          \<lparr>dao_Name = ''projects/p1/inboundSamlConfigs/saml.provider1'',
           dao_IDPConfig = \<lparr>dao_IDPEntityID = ''IDP_ENTITY_ID'', dao_SSOURL = ''https://example.com/login'',
              dao_IDPCertificates = [idpCertificate ''CERT1'', idpCertificate ''CERT2''],
              dao_SignRequest = True\<rparr>,
           dao_SPConfig = \<lparr>dao_SPEntityID = ''RP_ENTITY_ID'',
              dao_CallbackURI = ''https://projectId.firebaseapp.com/__/auth/handler''\<rparr>,
           dao_DisplayName = ''samlProviderName'', dao_Enabled = True\<rparr> = Inr c \<and>
        ID c = ''saml.provider1'' \<and> X509Certificates c ! 0 = ''CERT1'' \<and> X509Certificates c ! 1 = ''CERT2''"
  using toSAMLProviderConfig_copies[of
          "\<lparr>dao_Name = ''projects/p1/inboundSamlConfigs/saml.provider1'',
           dao_IDPConfig = \<lparr>dao_IDPEntityID = ''IDP_ENTITY_ID'', dao_SSOURL = ''https://example.com/login'',
              dao_IDPCertificates = [idpCertificate ''CERT1'', idpCertificate ''CERT2''],
              dao_SignRequest = True\<rparr>,
           dao_SPConfig = \<lparr>dao_SPEntityID = ''RP_ENTITY_ID'',
              dao_CallbackURI = ''https://projectId.firebaseapp.com/__/auth/handler''\<rparr>,
           dao_DisplayName = ''samlProviderName'', dao_Enabled = True\<rparr>"]
  by (simp add: toSAMLProviderConfig_def extractResourceID_def and_then_def)

section \<open>Lemmas on the builders and the client\<close>

lemma validateSAMLConfigID_prefix:
  "validateSAMLConfigID i = (if prefix ''saml.'' i then None else Some (InvalidSAMLProviderID i))"
  by (simp add: validateSAMLConfigID_def HasPrefix_def)

lemma snd_decoded: "snd (decoded r) = snd r"
  by (cases r; cases "fst r") (auto simp: decoded_def)

lemma snd_makeRequest:
  "projectID c \<noteq> [] \<Longrightarrow>
   snd (makeRequest c DoAndUnmarshal req)
     = [req\<lparr>URL := endpoint c @ ''/projects/'' @ projectID c @ URL req\<rparr>]"
  by (simp add: makeRequest_def)

lemma Get_loop_Inl: "Get_loop h cur ks = Inl f \<Longrightarrow> f = Panic"
proof (induction ks arbitrary: cur)
  case Nil
  then show ?case by simp
next
  case (Cons s rest)
  show ?case
  proof (cases "lookup h cur s")
    case None
    with Cons.prems show ?thesis by simp
  next
    case (Some v)
    show ?thesis
    proof (cases "rest = []")
      case True
      with Cons.prems Some show ?thesis by simp
    next
      case False
      with Cons.prems Some Cons.IH show ?thesis by (cases v) auto
    qed
  qed
qed

lemma nestedMap_Get_not_Failed: "nestedMap_Get h nm k \<noteq> Inl (Failed e)"
  using Get_loop_Inl[of h nm "Split k CHR ''.''" "Failed e"] by (auto simp: nestedMap_Get_def)

lemma nestedMap_GetString_not_Failed: "nestedMap_GetString h nm k \<noteq> Inl (Failed e)"
proof (cases "nestedMap_Get h nm k")
  case (Inl f)
  with nestedMap_Get_not_Failed[of h nm k e] show ?thesis by (simp add: nestedMap_GetString_def)
next
  case (Inr r)
  obtain v ok where "r = (v, ok)" by (cases r)
  with Inr show ?thesis by (cases v) (simp_all add: nestedMap_GetString_def)
qed

lemma and_then_InlE:
  assumes "and_then r f = Inl X"
  obtains "r = Inl X" | x where "r = Inr x" and "f x = Inl X"
  using assms by (cases r) (simp_all add: and_then_def)

lemma create_buildRequest_id_passed:
  assumes "prefix ''saml.'' (create_id config)"
  shows "create_buildRequest ParseRequestURI h config \<noteq> Inl (Failed (InvalidSAMLProviderID j))"
proof
  assume a: "create_buildRequest ParseRequestURI h config = Inl (Failed (InvalidSAMLProviderID j))"
  have v: "validateSAMLConfigID (create_id config) = None"
    using assms by (simp add: validateSAMLConfigID_prefix)
  note nf = nestedMap_GetString_not_Failed nestedMap_Get_not_Failed
  from a show False
    unfolding create_buildRequest_def v
    apply (simp split: if_splits)
    apply (erule and_then_InlE, simp add: nf)
    apply (clarsimp split: option.splits if_splits)
    apply (erule and_then_InlE, simp add: nf)
    apply (clarsimp split: option.splits if_splits)
    apply (erule and_then_InlE, simp add: nf)
    apply (clarsimp split: option.splits if_splits iface.splits)
    apply (erule and_then_InlE, simp add: nf)
    apply (clarsimp split: option.splits if_splits)
    apply (erule and_then_InlE, simp add: nf)
    apply (clarsimp split: option.splits if_splits)
    done
qed

lemma create_buildRequest_id:
  assumes "create_buildRequest ParseRequestURI h config = Inr (body, i)"
  shows "i = create_id config \<and> body = create_params config"
proof -
  have *: "and_then r f = Inr y \<Longrightarrow> (\<And>x. f x = Inr y \<Longrightarrow> P) \<Longrightarrow> P" for r :: "fault + 'a"
    and f :: "'a \<Rightarrow> fault + (ref \<times> string)" and y P
    by (cases r) (simp_all add: and_then_def)
  from assms show ?thesis
    unfolding create_buildRequest_def
    apply (simp split: option.splits if_splits)
    apply (erule *)
    apply (clarsimp split: option.splits if_splits)
    apply (erule *)
    apply (clarsimp split: option.splits if_splits)
    apply (erule *)
    apply (clarsimp split: option.splits if_splits iface.splits)
    apply (erule *)
    apply (clarsimp split: option.splits if_splits)
    apply (erule *)
    apply (clarsimp split: option.splits if_splits)
    done
qed

lemma Split_keys:
  "Split idpEntityIDKey CHR ''.'' = [''idpConfig'', ''idpEntityId'']"
  "Split ssoURLKey CHR ''.'' = [''idpConfig'', ''ssoUrl'']"
  "Split signRequestKey CHR ''.'' = [''idpConfig'', ''signRequest'']"
  "Split idpCertsKey CHR ''.'' = [''idpConfig'', ''idpCertificates'']"
  "Split spEntityIDKey CHR ''.'' = [''spConfig'', ''spEntityId'']"
  "Split callbackURIKey CHR ''.'' = [''spConfig'', ''callbackUri'']"
  "Split displayNameKey CHR ''.'' = [''displayName'']"
  "Split enabledKey CHR ''.'' = [''enabled'']"
  by (simp_all add: idpEntityIDKey_def ssoURLKey_def signRequestKey_def idpCertsKey_def
      spEntityIDKey_def callbackURIKey_def displayNameKey_def enabledKey_def)

lemma buildMask_range_Nil: "buildMask_range h [] = Some []"
  by (subst buildMask_range.simps) simp

lemma buildMask_range_leaf:
  "\<forall>c. v \<noteq> IMap c \<Longrightarrow>
   buildMask_range h ((k, v) # rest) = Option.bind (buildMask_range h rest) (\<lambda>more. Some (k # more))"
  by (subst buildMask_range.simps) (cases v; simp)

lemma buildMask_range_map:
  "buildMask_range h ((k, IMap child) # rest) =
     Option.bind (buildMask_range h (entries h child)) (\<lambda>childMask.
     Option.bind (buildMask_range h rest) (\<lambda>more.
     Some (map (\<lambda>item. k @ ''.'' @ item) childMask @ more)))"
  by (subst buildMask_range.simps) simp


section \<open>Identifier validation in the client\<close>

text \<open>
  C4: for every identifier that does not start with \<^verbatim>\<open>saml.\<close>, each of the four
  operations returns the invalid-SAML-provider-id error and has handed no request to
  the transport; for create the identifier is the one set on the builder, whatever
  else the builder holds, and for update the identifier is checked before the
  builder is looked at.
\<close>

theorem invalid_id_rejected_before_any_request:
  "\<not> prefix ''saml.'' i \<longrightarrow>
     GetSAMLProviderConfig c DoAndUnmarshal i = (Inl (Failed (InvalidSAMLProviderID i)), []) \<and>
     (create_id config = i \<longrightarrow>
        CreateSAMLProviderConfig c DoAndUnmarshal ParseRequestURI h (Some config)
          = (Inl (Failed (InvalidSAMLProviderID i)), [])) \<and>
     UpdateSAMLProviderConfig c DoAndUnmarshal ParseRequestURI h i uconfig
       = Some (Inl (Failed (InvalidSAMLProviderID i)), []) \<and>
     DeleteSAMLProviderConfig c DoAndUnmarshal i = (Some (InvalidSAMLProviderID i), [])"
  by (simp add: validateSAMLConfigID_prefix GetSAMLProviderConfig_def CreateSAMLProviderConfig_def
      UpdateSAMLProviderConfig_def DeleteSAMLProviderConfig_def create_buildRequest_def)

text \<open>
  The theorem at the identifier \<^verbatim>\<open>oidc.provider\<close>.
\<close>

theorem invalid_id_rejected_before_any_request_witness:
  "GetSAMLProviderConfig \<lparr>endpoint = providerConfigEndpoint, projectID = ''p1''\<rparr>
       (\<lambda>req. Inl (External ''unreachable'')) ''oidc.provider''
     = (Inl (Failed (InvalidSAMLProviderID ''oidc.provider'')), []) \<and>
   CreateSAMLProviderConfig \<lparr>endpoint = providerConfigEndpoint, projectID = ''p1''\<rparr>
       (\<lambda>req. Inl (External ''unreachable'')) (\<lambda>u. None) [[(''enabled'', IBool True)]]
       (Some \<lparr>create_id = ''oidc.provider'', create_params = Some 0\<rparr>)
     = (Inl (Failed (InvalidSAMLProviderID ''oidc.provider'')), []) \<and>
   UpdateSAMLProviderConfig \<lparr>endpoint = providerConfigEndpoint, projectID = ''p1''\<rparr>
       (\<lambda>req. Inl (External ''unreachable'')) (\<lambda>u. None) [[(''enabled'', IBool True)]]
       ''oidc.provider'' (Some \<lparr>update_params = Some 0\<rparr>)
     = Some (Inl (Failed (InvalidSAMLProviderID ''oidc.provider'')), []) \<and>
   DeleteSAMLProviderConfig \<lparr>endpoint = providerConfigEndpoint, projectID = ''p1''\<rparr>
       (\<lambda>req. Inl (External ''unreachable'')) ''oidc.provider''
     = (Some (InvalidSAMLProviderID ''oidc.provider''), [])"
  using invalid_id_rejected_before_any_request[where i = "''oidc.provider''"
      and c = "\<lparr>endpoint = providerConfigEndpoint, projectID = ''p1''\<rparr>"
      and DoAndUnmarshal = "\<lambda>req. Inl (External ''unreachable'')"
      and config = "\<lparr>create_id = ''oidc.provider'', create_params = Some 0\<rparr>"
      and ParseRequestURI = "\<lambda>u. None" and h = "[[(''enabled'', IBool True)]]"
      and uconfig = "Some \<lparr>update_params = Some 0\<rparr>"]
  by simp

text \<open>
  C10: validation accepts every string that starts with \<^verbatim>\<open>saml.\<close>, whatever follows,
  so also the bare \<^verbatim>\<open>saml.\<close>. With it, get and delete hand their request to the
  transport (the project identifier being set), update does so once its builder
  builds and the mask is computed, create does so once its builder builds, with
  \<^verbatim>\<open>saml.\<close> as the query parameter; and whatever else a create builder with this
  identifier holds, \<^verbatim>\<open>buildRequest\<close> does not fail with the invalid-identifier error.
\<close>

theorem bare_prefix_accepted:
  "validateSAMLConfigID (''saml.'' @ rest) = None \<and>
   validateSAMLConfigID ''saml.'' = None \<and>
   (projectID c \<noteq> [] \<longrightarrow>
      snd (GetSAMLProviderConfig c DoAndUnmarshal ''saml.'')
        = [\<lparr>Method = ''GET'',
            URL = endpoint c @ ''/projects/'' @ projectID c @ ''/inboundSamlConfigs/saml.'',
            Body = None, Opts = []\<rparr>] \<and>
      snd (DeleteSAMLProviderConfig c DoAndUnmarshal ''saml.'')
        = [\<lparr>Method = ''DELETE'',
            URL = endpoint c @ ''/projects/'' @ projectID c @ ''/inboundSamlConfigs/saml.'',
            Body = None, Opts = []\<rparr>] \<and>
      (update_buildRequest ParseRequestURI h uconfig = Inr body \<and> buildMask h body = Some paths \<longrightarrow>
         map_option snd
           (UpdateSAMLProviderConfig c DoAndUnmarshal ParseRequestURI h ''saml.'' (Some uconfig))
           = Some [\<lparr>Method = ''PATCH'',
               URL = endpoint c @ ''/projects/'' @ projectID c @ ''/inboundSamlConfigs/saml.'',
               Body = Some body,
               Opts = [WithQueryParam ''updateMask'' (Join paths '','')]\<rparr>]) \<and>
      (create_id config = ''saml.'' \<and>
       create_buildRequest ParseRequestURI h config = Inr (cbody, i) \<longrightarrow>
         snd (CreateSAMLProviderConfig c DoAndUnmarshal ParseRequestURI h (Some config))
           = [\<lparr>Method = ''POST'',
               URL = endpoint c @ ''/projects/'' @ projectID c @ ''/inboundSamlConfigs'',
               Body = Some cbody,
               Opts = [WithQueryParam ''inboundSamlConfigId'' ''saml.'']\<rparr>])) \<and>
   (create_id config = ''saml.'' \<longrightarrow>
      create_buildRequest ParseRequestURI h config \<noteq> Inl (Failed (InvalidSAMLProviderID j)))"
proof (intro conjI impI)
  show "validateSAMLConfigID (''saml.'' @ rest) = None"
    by (simp add: validateSAMLConfigID_prefix)
  show "validateSAMLConfigID ''saml.'' = None"
    by (simp add: validateSAMLConfigID_prefix)
next
  assume "projectID c \<noteq> []"
  then show "snd (GetSAMLProviderConfig c DoAndUnmarshal ''saml.'')
        = [\<lparr>Method = ''GET'',
            URL = endpoint c @ ''/projects/'' @ projectID c @ ''/inboundSamlConfigs/saml.'',
            Body = None, Opts = []\<rparr>]"
    by (simp add: GetSAMLProviderConfig_def validateSAMLConfigID_prefix snd_decoded snd_makeRequest)
next
  assume p: "projectID c \<noteq> []"
  obtain r sent where m: "makeRequest c DoAndUnmarshal
      \<lparr>Method = ''DELETE'', URL = ''/inboundSamlConfigs/saml.'', Body = None, Opts = []\<rparr> = (r, sent)"
    by (cases "makeRequest c DoAndUnmarshal
      \<lparr>Method = ''DELETE'', URL = ''/inboundSamlConfigs/saml.'', Body = None, Opts = []\<rparr>")
  with snd_makeRequest[OF p, of DoAndUnmarshal
      "\<lparr>Method = ''DELETE'', URL = ''/inboundSamlConfigs/saml.'', Body = None, Opts = []\<rparr>"]
  have "sent = [\<lparr>Method = ''DELETE'',
            URL = endpoint c @ ''/projects/'' @ projectID c @ ''/inboundSamlConfigs/saml.'',
            Body = None, Opts = []\<rparr>]" by simp
  with m show "snd (DeleteSAMLProviderConfig c DoAndUnmarshal ''saml.'')
        = [\<lparr>Method = ''DELETE'',
            URL = endpoint c @ ''/projects/'' @ projectID c @ ''/inboundSamlConfigs/saml.'',
            Body = None, Opts = []\<rparr>]"
    by (cases r) (simp_all add: DeleteSAMLProviderConfig_def validateSAMLConfigID_prefix)
next
  assume p: "projectID c \<noteq> []"
    and "update_buildRequest ParseRequestURI h uconfig = Inr body \<and> buildMask h body = Some paths"
  then show "map_option snd
           (UpdateSAMLProviderConfig c DoAndUnmarshal ParseRequestURI h ''saml.'' (Some uconfig))
           = Some [\<lparr>Method = ''PATCH'',
               URL = endpoint c @ ''/projects/'' @ projectID c @ ''/inboundSamlConfigs/saml.'',
               Body = Some body,
               Opts = [WithQueryParam ''updateMask'' (Join paths '','')]\<rparr>]"
    by (simp add: UpdateSAMLProviderConfig_def validateSAMLConfigID_prefix UpdateMask_def
        snd_decoded snd_makeRequest)
next
  assume p: "projectID c \<noteq> []"
    and a: "create_id config = ''saml.'' \<and>
       create_buildRequest ParseRequestURI h config = Inr (cbody, i)"
  from a create_buildRequest_id[of ParseRequestURI h config cbody i] have "i = ''saml.''" by simp
  with a p
  show "snd (CreateSAMLProviderConfig c DoAndUnmarshal ParseRequestURI h (Some config))
           = [\<lparr>Method = ''POST'',
               URL = endpoint c @ ''/projects/'' @ projectID c @ ''/inboundSamlConfigs'',
               Body = Some cbody,
               Opts = [WithQueryParam ''inboundSamlConfigId'' ''saml.'']\<rparr>]"
    by (simp add: CreateSAMLProviderConfig_def snd_decoded snd_makeRequest)
next
  assume "create_id config = ''saml.''"
  then show "create_buildRequest ParseRequestURI h config \<noteq> Inl (Failed (InvalidSAMLProviderID j))"
    using create_buildRequest_id_passed[of config ParseRequestURI h j] by simp
qed

text \<open>
  The theorem at a client with a project, a create builder and an update builder
  that hold all required fields.
\<close>

theorem bare_prefix_accepted_witness:
  "snd (GetSAMLProviderConfig \<lparr>endpoint = ''https://host/v2beta1'', projectID = ''p1''\<rparr>
          (\<lambda>req. Inl (External ''offline'')) ''saml.'')
     = [\<lparr>Method = ''GET'', URL = ''https://host/v2beta1/projects/p1/inboundSamlConfigs/saml.'',
         Body = None, Opts = []\<rparr>] \<and>
   snd (DeleteSAMLProviderConfig \<lparr>endpoint = ''https://host/v2beta1'', projectID = ''p1''\<rparr>
          (\<lambda>req. Inl (External ''offline'')) ''saml.'')
     = [\<lparr>Method = ''DELETE'', URL = ''https://host/v2beta1/projects/p1/inboundSamlConfigs/saml.'',
         Body = None, Opts = []\<rparr>] \<and>
   map_option snd
     (UpdateSAMLProviderConfig \<lparr>endpoint = ''https://host/v2beta1'', projectID = ''p1''\<rparr>
        (\<lambda>req. Inl (External ''offline'')) (\<lambda>u. None)
        [[(''idpConfig'', IMap (Some 1)), (''spConfig'', IMap (Some 2))],
         [(''idpEntityId'', IStr ''idp''), (''ssoUrl'', IStr ''https://idp/sso''),
          (''idpCertificates'', ICerts [idpCertificate ''CERT''])],
         [(''spEntityId'', IStr ''rp''), (''callbackUri'', IStr ''https://rp/cb'')]]
        ''saml.'' (Some \<lparr>update_params = Some 0\<rparr>))
     = Some [\<lparr>Method = ''PATCH'', URL = ''https://host/v2beta1/projects/p1/inboundSamlConfigs/saml.'',
         Body = Some (Some 0),
         Opts = [WithQueryParam ''updateMask''
           ''idpConfig.idpEntityId,idpConfig.ssoUrl,idpConfig.idpCertificates,spConfig.spEntityId,spConfig.callbackUri'']\<rparr>] \<and>
   snd (CreateSAMLProviderConfig \<lparr>endpoint = ''https://host/v2beta1'', projectID = ''p1''\<rparr>
          (\<lambda>req. Inl (External ''offline'')) (\<lambda>u. None)
          [[(''idpConfig'', IMap (Some 1)), (''spConfig'', IMap (Some 2))],
           [(''idpEntityId'', IStr ''idp''), (''ssoUrl'', IStr ''https://idp/sso''),
            (''idpCertificates'', ICerts [idpCertificate ''CERT''])],
           [(''spEntityId'', IStr ''rp''), (''callbackUri'', IStr ''https://rp/cb'')]]
          (Some \<lparr>create_id = ''saml.'', create_params = Some 0\<rparr>))
     = [\<lparr>Method = ''POST'', URL = ''https://host/v2beta1/projects/p1/inboundSamlConfigs'',
         Body = Some (Some 0), Opts = [WithQueryParam ''inboundSamlConfigId'' ''saml.'']\<rparr>]"
  using bare_prefix_accepted[where c = "\<lparr>endpoint = ''https://host/v2beta1'', projectID = ''p1''\<rparr>"
      and DoAndUnmarshal = "\<lambda>req. Inl (External ''offline'')" and ParseRequestURI = "\<lambda>u. None"
      and h = "[[(''idpConfig'', IMap (Some 1)), (''spConfig'', IMap (Some 2))],
           [(''idpEntityId'', IStr ''idp''), (''ssoUrl'', IStr ''https://idp/sso''),
            (''idpCertificates'', ICerts [idpCertificate ''CERT''])],
           [(''spEntityId'', IStr ''rp''), (''callbackUri'', IStr ''https://rp/cb'')]]"
      and uconfig = "\<lparr>update_params = Some 0\<rparr>" and body = "Some 0"
      and paths = "[''idpConfig.idpEntityId'', ''idpConfig.ssoUrl'', ''idpConfig.idpCertificates'',
                    ''spConfig.spEntityId'', ''spConfig.callbackUri'']"
      and config = "\<lparr>create_id = ''saml.'', create_params = Some 0\<rparr>"
      and cbody = "Some 0" and i = "''saml.''"]
  by (simp add: create_buildRequest_def update_buildRequest_def validateSAMLConfigID_prefix
      nestedMap_GetString_def nestedMap_Get_def Split_keys lookup_def entries_def len_def
      and_then_def buildMask_def buildMask_range_Nil buildMask_range_leaf buildMask_range_map)

end
